theory Spec2Isabelle
  imports Complex_Main
begin

section \<open>Data model\<close>

text \<open>
  The technical-signal engine of \<^verbatim>\<open>advanced_trading_system.py\<close> works on a pandas data
  frame with the columns Open, High, Low, Close and Volume. A row is a bar; the frame is the
  list of its rows in index order. Prices of the input are finite numbers, modelled as
  \<^typ>\<open>real\<close>. The trend classifier, the pivot detector, the RSI and the risk sizer are
  modelled with exact arithmetic on them; the level generator takes the rounding of its
  arithmetic as a parameter.
\<close>

record bar =
  Open :: real
  High :: real
  Low :: real
  Close :: real
  Volume :: real

type_synonym frame = "bar list"

text \<open>
  Values computed by pandas and numpy are float64 values: besides finite numbers they can be
  the two infinities and NaN. numpy does not raise on a division by zero (the module silences
  the warning), it returns one of the special values.
\<close>

datatype fl = Fin real | PInf | NInf | NaN

fun fl_neg :: "fl \<Rightarrow> fl" where
  "fl_neg (Fin a) = Fin (- a)"
| "fl_neg PInf = NInf"
| "fl_neg NInf = PInf"
| "fl_neg NaN = NaN"

fun fl_add :: "fl \<Rightarrow> fl \<Rightarrow> fl" where
  "fl_add NaN _ = NaN"
| "fl_add _ NaN = NaN"
| "fl_add (Fin a) (Fin b) = Fin (a + b)"
| "fl_add PInf NInf = NaN"
| "fl_add NInf PInf = NaN"
| "fl_add PInf _ = PInf"
| "fl_add NInf _ = NInf"
| "fl_add (Fin a) PInf = PInf"
| "fl_add (Fin a) NInf = NInf"

definition fl_sub :: "fl \<Rightarrow> fl \<Rightarrow> fl" where
  "fl_sub a b = fl_add a (fl_neg b)"

text \<open>Division as float64 does it: a zero divisor gives an infinity, or NaN for 0/0.\<close>

fun fl_div :: "fl \<Rightarrow> fl \<Rightarrow> fl" where
  "fl_div NaN _ = NaN"
| "fl_div _ NaN = NaN"
| "fl_div (Fin a) (Fin b) =
     (if b \<noteq> 0 then Fin (a / b)
      else if 0 < a then PInf else if a < 0 then NInf else NaN)"
| "fl_div (Fin a) PInf = Fin 0"
| "fl_div (Fin a) NInf = Fin 0"
| "fl_div PInf (Fin b) = (if 0 \<le> b then PInf else NInf)"
| "fl_div NInf (Fin b) = (if 0 \<le> b then NInf else PInf)"
| "fl_div PInf _ = NaN"
| "fl_div NInf _ = NaN"

text \<open>Comparisons: every comparison with NaN is false.\<close>

fun fl_lt :: "fl \<Rightarrow> fl \<Rightarrow> bool" where
  "fl_lt NaN _ = False"
| "fl_lt _ NaN = False"
| "fl_lt (Fin a) (Fin b) = (a < b)"
| "fl_lt (Fin a) PInf = True"
| "fl_lt (Fin a) NInf = False"
| "fl_lt PInf _ = False"
| "fl_lt NInf NInf = False"
| "fl_lt NInf _ = True"

definition fl_gt :: "fl \<Rightarrow> fl \<Rightarrow> bool" where
  "fl_gt a b = fl_lt b a"

fun fl_mul :: "fl \<Rightarrow> fl \<Rightarrow> fl" where
  "fl_mul NaN _ = NaN"
| "fl_mul _ NaN = NaN"
| "fl_mul (Fin a) (Fin b) = Fin (a * b)"
| "fl_mul (Fin a) PInf = (if a = 0 then NaN else if 0 < a then PInf else NInf)"
| "fl_mul (Fin a) NInf = (if a = 0 then NaN else if 0 < a then NInf else PInf)"
| "fl_mul PInf (Fin b) = (if b = 0 then NaN else if 0 < b then PInf else NInf)"
| "fl_mul NInf (Fin b) = (if b = 0 then NaN else if 0 < b then NInf else PInf)"
| "fl_mul PInf PInf = PInf"
| "fl_mul PInf NInf = NInf"
| "fl_mul NInf PInf = NInf"
| "fl_mul NInf NInf = PInf"

fun fl_abs :: "fl \<Rightarrow> fl" where
  "fl_abs (Fin a) = Fin \<bar>a\<bar>"
| "fl_abs PInf = PInf"
| "fl_abs NInf = PInf"
| "fl_abs NaN = NaN"

text \<open>
  Python's \<^verbatim>\<open>min(a, b)\<close> returns \<open>a\<close> unless \<open>b < a\<close>, and \<^verbatim>\<open>max(a, b)\<close> returns \<open>a\<close>
  unless \<open>b > a\<close>; with a NaN first argument the result is that NaN.
\<close>

definition py_min :: "fl \<Rightarrow> fl \<Rightarrow> fl" where
  "py_min a b = (if fl_lt b a then b else a)"

definition py_max :: "fl \<Rightarrow> fl \<Rightarrow> fl" where
  "py_max a b = (if fl_gt b a then b else a)"

section \<open>Float64 rounding\<close>

text \<open>
  Float64 arithmetic rounds the exact result of every operation to the nearest number with
  a 53-bit significand, ties to the even significand. The binary exponent of a positive
  number \<open>x\<close> is the integer \<open>e\<close> with \<open>2^e \<le> x < 2^(e+1)\<close>; it is found by halving or
  doubling. The exponent range is taken as unbounded: overflow and subnormal numbers are
  not modelled.
\<close>

function lg_up :: "real \<Rightarrow> nat" where
  "lg_up x = (if x < 2 then 0 else Suc (lg_up (x / 2)))"
  by pat_completeness auto
termination
proof (relation "measure (\<lambda>x. nat \<lfloor>x\<rfloor>)")
  show "wf (measure (\<lambda>x. nat \<lfloor>x\<rfloor>))" by simp
next
  fix x :: real assume "\<not> x < 2"
  then have x: "2 \<le> x" by simp
  then have "x / 2 + 1 \<le> x" by simp
  then have "\<lfloor>x / 2 + 1\<rfloor> \<le> \<lfloor>x\<rfloor>" by (rule floor_mono)
  then have "\<lfloor>x / 2\<rfloor> + 1 \<le> \<lfloor>x\<rfloor>" by simp
  moreover from x have "0 \<le> \<lfloor>x / 2\<rfloor>" by simp
  ultimately have "nat \<lfloor>x / 2\<rfloor> < nat \<lfloor>x\<rfloor>" by linarith
  then show "(x / 2, x) \<in> measure (\<lambda>x. nat \<lfloor>x\<rfloor>)" by simp
qed

function lg_down :: "real \<Rightarrow> nat" where
  "lg_down x = (if x \<le> 0 \<or> 1 \<le> x then 0 else Suc (lg_down (2 * x)))"
  by pat_completeness auto
termination
proof (relation "measure (\<lambda>x. nat \<lfloor>1 / x\<rfloor>)")
  show "wf (measure (\<lambda>x. nat \<lfloor>1 / x\<rfloor>))" by simp
next
  fix x :: real assume "\<not> (x \<le> 0 \<or> 1 \<le> x)"
  then have x: "0 < x" "x < 1" by simp_all
  define y where "y = 1 / (2 * x)"
  from x have y: "1 / 2 < y" by (simp add: y_def field_simps)
  have xy: "1 / x = 2 * y" using x by (simp add: y_def)
  have "\<lfloor>y\<rfloor> < \<lfloor>2 * y\<rfloor>"
  proof (cases "1 \<le> y")
    case True
    then have "y + 1 \<le> 2 * y" by simp
    then have "\<lfloor>y + 1\<rfloor> \<le> \<lfloor>2 * y\<rfloor>" by (rule floor_mono)
    then show ?thesis by simp
  next
    case False
    then have "\<lfloor>y\<rfloor> < 1" by (simp add: floor_less_iff)
    moreover from y have "1 \<le> \<lfloor>2 * y\<rfloor>" by (simp add: le_floor_iff)
    ultimately show ?thesis by linarith
  qed
  moreover from y have "0 < \<lfloor>2 * y\<rfloor>" by (simp add: less_floor_iff)
  ultimately have "nat \<lfloor>y\<rfloor> < nat \<lfloor>2 * y\<rfloor>" by linarith
  then show "(2 * x, x) \<in> measure (\<lambda>x. nat \<lfloor>1 / x\<rfloor>)"
    unfolding xy by (simp add: y_def)
qed

declare lg_up.simps [simp del] lg_down.simps [simp del]

definition binary_exponent :: "real \<Rightarrow> int" where
  "binary_exponent x = (if 1 \<le> x then int (lg_up x) else - int (lg_down x))"

text \<open>Rounding to the nearest integer, ties to the even one.\<close>

definition rte :: "real \<Rightarrow> int" where
  "rte x = (let f = \<lfloor>x\<rfloor>; d = x - of_int f
            in if d < 1 / 2 then f else if 1 / 2 < d then f + 1
               else if even f then f else f + 1)"

definition round64 :: "real \<Rightarrow> real" where
  "round64 x =
     (if x = 0 then 0
      else let u = 2 powi (binary_exponent \<bar>x\<bar> - 52)
           in sgn x * (of_int (rte (\<bar>x\<bar> / u)) * u))"

text \<open>
  The level generator takes the rounding of its arithmetic as a parameter \<open>rnd\<close>:
  \<open>round64\<close> is the arithmetic of the program, \<open>exact\<close> is arithmetic without rounding
  error. The rounding applies to finite results only.
\<close>

definition exact :: "real \<Rightarrow> real" where
  "exact x = x"

definition fl_rnd :: "(real \<Rightarrow> real) \<Rightarrow> fl \<Rightarrow> fl" where
  "fl_rnd rnd v = (case v of Fin x \<Rightarrow> Fin (rnd x) | _ \<Rightarrow> v)"

definition radd :: "(real \<Rightarrow> real) \<Rightarrow> fl \<Rightarrow> fl \<Rightarrow> fl" where
  "radd rnd a b = fl_rnd rnd (fl_add a b)"

definition rsub :: "(real \<Rightarrow> real) \<Rightarrow> fl \<Rightarrow> fl \<Rightarrow> fl" where
  "rsub rnd a b = fl_rnd rnd (fl_sub a b)"

definition rmul :: "(real \<Rightarrow> real) \<Rightarrow> fl \<Rightarrow> fl \<Rightarrow> fl" where
  "rmul rnd a b = fl_rnd rnd (fl_mul a b)"

definition rdiv :: "(real \<Rightarrow> real) \<Rightarrow> fl \<Rightarrow> fl \<Rightarrow> fl" where
  "rdiv rnd a b = fl_rnd rnd (fl_div a b)"

section \<open>Rolling windows\<close>

text \<open>
  \<^verbatim>\<open>series.rolling(w).mean()\<close>: the entry at index \<open>i\<close> is the mean of the \<open>w\<close> entries
  ending at \<open>i\<close>, and NaN while fewer than \<open>w\<close> entries are available.
\<close>

definition window_at :: "nat \<Rightarrow> real list \<Rightarrow> nat \<Rightarrow> real list" where
  "window_at w xs i = take w (drop (Suc i - w) xs)"

definition rolling_mean :: "nat \<Rightarrow> real list \<Rightarrow> fl list" where
  "rolling_mean w xs =
     map (\<lambda>i. if 0 < w \<and> w \<le> Suc i then Fin (sum_list (window_at w xs i) / real w) else NaN)
       [0..<length xs]"

section \<open>Trend classifier\<close>

text \<open>
  The ADX comes from the external TA-Lib; the outcome of the call is a parameter of the
  model: \<open>None\<close> when the call raises, \<open>Some a\<close> for the value it returns. The
  \<^verbatim>\<open>try\<close>/\<^verbatim>\<open>except\<close> around the call puts 25 in place of a failed call.
\<close>

definition trend_strength :: "real option \<Rightarrow> real" where
  "trend_strength adx_result = (case adx_result of None \<Rightarrow> 25 | Some a \<Rightarrow> a)"

text \<open>\<^verbatim>\<open>analyze_trend(data)\<close> returns the pair (trend, strength).\<close>

definition analyze_trend :: "frame \<Rightarrow> real option \<Rightarrow> string \<times> real" where
  "analyze_trend data adx_result =
     (if length data < 50 then (''Insufficient Data'', 0)
      else
        let sma_20 = last (rolling_mean 20 (map Close data));
            sma_50 = last (rolling_mean 50 (map Close data));
            current_price = Fin (Close (last data));
            adx = trend_strength adx_result
        in if fl_gt current_price sma_20 \<and> fl_gt sma_20 sma_50
           then (''Uptrend'', min adx 100)
           else if fl_lt current_price sma_20 \<and> fl_lt sma_20 sma_50
           then (''Downtrend'', min adx 100)
           else (''Sideways'', if 25 < adx then max (25 - adx) 0 else 25))"

section \<open>Pivot detector\<close>

text \<open>
  \<^verbatim>\<open>series.rolling(window=5, center=True).max()\<close> at index \<open>i\<close>: the maximum of the five
  entries \<open>i-2 .. i+2\<close>, NaN where the window runs over either end of the series.
\<close>

definition centered_window :: "real list \<Rightarrow> nat \<Rightarrow> real list" where
  "centered_window xs i = take 5 (drop (i - 2) xs)"

definition rolling_max_center :: "real list \<Rightarrow> nat \<Rightarrow> fl" where
  "rolling_max_center xs i =
     (if 2 \<le> i \<and> i + 2 < length xs then Fin (Max (set (centered_window xs i))) else NaN)"

definition rolling_min_center :: "real list \<Rightarrow> nat \<Rightarrow> fl" where
  "rolling_min_center xs i =
     (if 2 \<le> i \<and> i + 2 < length xs then Fin (Min (set (centered_window xs i))) else NaN)"

text \<open>The loop over \<^verbatim>\<open>range(2, len(data)-2)\<close> that collects the local highs and lows.\<close>

definition resistance_candidates :: "frame \<Rightarrow> real list" where
  "resistance_candidates data =
     map (\<lambda>i. High (data ! i))
       (filter (\<lambda>i. Fin (High (data ! i)) = rolling_max_center (map High data) i)
          [2..<length data - 2])"

definition support_candidates :: "frame \<Rightarrow> real list" where
  "support_candidates data =
     map (\<lambda>i. Low (data ! i))
       (filter (\<lambda>i. Fin (Low (data ! i)) = rolling_min_center (map Low data) i)
          [2..<length data - 2])"

text \<open>
  \<^verbatim>\<open>calculate_support_resistance(data)\<close> returns the pair (support, resistance).
  \<^verbatim>\<open>sorted(list(set(xs)))\<close> is the ascending list of the distinct values;
  \<^verbatim>\<open>reverse=True\<close> gives it in descending order.
\<close>

definition calculate_support_resistance :: "frame \<Rightarrow> real list \<times> real list" where
  "calculate_support_resistance data =
     (if length data < 20 then ([], [])
      else
        let resistance_levels = take 5 (rev (sort (remdups (resistance_candidates data))));
            support_levels = take 5 (sort (remdups (support_candidates data)))
        in (support_levels, resistance_levels))"

section \<open>Level generator\<close>

datatype py_error = IndexError | OverflowError | ValueError

text \<open>
  The dictionary that \<^verbatim>\<open>generate_entry_exit_levels\<close> returns: a key that is absent is
  \<open>None\<close>. Every number in it is a float64 value and can be NaN or an infinity.
\<close>

record levels =
  direction :: "string option"
  message :: "string option"
  entry :: "fl option"
  stop_loss :: "fl option"
  take_profit_1 :: "fl option"
  take_profit_2 :: "fl option"
  risk_reward :: "fl option"

text \<open>
  \<^verbatim>\<open>min(xs, default=d)\<close> and \<^verbatim>\<open>max(xs, default=d)\<close> on a list of levels, which are finite
  numbers.
\<close>

definition min_default :: "real list \<Rightarrow> fl \<Rightarrow> fl" where
  "min_default xs d = (if xs = [] then d else Fin (Min (set xs)))"

definition max_default :: "real list \<Rightarrow> fl \<Rightarrow> fl" where
  "max_default xs d = (if xs = [] then d else Fin (Max (set xs)))"

text \<open>
  \<^verbatim>\<open>generate_entry_exit_levels(data, trend)\<close>. The ATR comes from the external TA-Lib; the
  outcome of the call is a parameter: \<open>None\<close> when the call raises (the \<^verbatim>\<open>except\<close> branch
  then takes 2% of the close), \<open>Some a\<close> for the float64 value it returns, which is NaN
  when TA-Lib has too few bars for the period. Reading the last close of an empty frame
  raises IndexError.
\<close>

definition generate_entry_exit_levels ::
  "(real \<Rightarrow> real) \<Rightarrow> frame \<Rightarrow> fl option \<Rightarrow> string \<Rightarrow> py_error + levels" where
  "generate_entry_exit_levels rnd data atr_result trend =
     (if data = [] then Inl IndexError
      else
        let current_price = Fin (Close (last data));
            atr = (case atr_result of
                     None \<Rightarrow> rmul rnd current_price (Fin (rnd 0.02))
                   | Some a \<Rightarrow> a);
            (support_levels, resistance_levels) = calculate_support_resistance data
        in if trend = ''Uptrend'' then
             let entry_price = current_price;
                 stop = rsub rnd current_price (rmul rnd (Fin 2) atr);
                 tp1 = radd rnd current_price (rmul rnd (Fin 2) atr);
                 tp2 = radd rnd current_price (rmul rnd (Fin 4) atr);
                 tp1 = (if resistance_levels \<noteq> []
                        then py_min tp1
                          (min_default (filter (\<lambda>r. Close (last data) < r) resistance_levels) tp1)
                        else tp1)
             in Inr \<lparr>direction = Some ''LONG'', message = None,
                     entry = Some entry_price, stop_loss = Some stop,
                     take_profit_1 = Some tp1, take_profit_2 = Some tp2,
                     risk_reward =
                       Some (rdiv rnd (rsub rnd tp1 entry_price) (rsub rnd entry_price stop))\<rparr>
           else if trend = ''Downtrend'' then
             let entry_price = current_price;
                 stop = radd rnd current_price (rmul rnd (Fin 2) atr);
                 tp1 = rsub rnd current_price (rmul rnd (Fin 2) atr);
                 tp2 = rsub rnd current_price (rmul rnd (Fin 4) atr);
                 tp1 = (if support_levels \<noteq> []
                        then py_max tp1
                          (max_default (filter (\<lambda>s. s < Close (last data)) support_levels) tp1)
                        else tp1)
             in Inr \<lparr>direction = Some ''SHORT'', message = None,
                     entry = Some entry_price, stop_loss = Some stop,
                     take_profit_1 = Some tp1, take_profit_2 = Some tp2,
                     risk_reward =
                       Some (rdiv rnd (rsub rnd entry_price tp1) (rsub rnd stop entry_price))\<rparr>
           else Inr \<lparr>direction = Some ''WAIT'',
                     message = Some ''No clear trend - wait for breakout'',
                     entry = None, stop_loss = None, take_profit_1 = None,
                     take_profit_2 = None, risk_reward = None\<rparr>)"

section \<open>Risk sizer\<close>

text \<open>
  \<^verbatim>\<open>int(x)\<close> on a float64: truncation towards zero; an infinity raises OverflowError and
  NaN raises ValueError.
\<close>

fun py_int :: "fl \<Rightarrow> py_error + int" where
  "py_int (Fin x) = Inr (if 0 \<le> x then \<lfloor>x\<rfloor> else \<lceil>x\<rceil>)"
| "py_int PInf = Inl OverflowError"
| "py_int NInf = Inl OverflowError"
| "py_int NaN = Inl ValueError"

text \<open>
  The dictionary that \<^verbatim>\<open>calculate_risk_management\<close> returns: either a message only, or the
  sizing. The two amounts that the code formats to two decimals are kept as numbers.
\<close>

datatype risk_management =
  RiskMessage string
| RiskSizing (account_size: int) (risk_per_trade: string) (risk_per_share: fl)
    (max_position_size: int) (total_risk: fl)

definition calculate_risk_management :: "real \<Rightarrow> levels \<Rightarrow> py_error + risk_management" where
  "calculate_risk_management current_price lv =
     (if direction lv = Some ''WAIT'' then Inr (RiskMessage ''No position recommended'')
      else
        let account_size = 10000; risk_per_trade = 0.02
        in case stop_loss lv of
             Some sl \<Rightarrow>
               let risk_per_share = fl_abs (fl_sub (Fin current_price) sl);
                   position_size = fl_div (Fin (real_of_int account_size * risk_per_trade))
                                     risk_per_share
               in (case py_int position_size of
                     Inl e \<Rightarrow> Inl e
                   | Inr max_shares \<Rightarrow>
                       Inr (RiskSizing account_size ''2.0%'' risk_per_share max_shares
                              (fl_mul (Fin (real_of_int max_shares)) risk_per_share)))
           | None \<Rightarrow> Inr (RiskMessage ''Risk calculation unavailable''))"

section \<open>RSI\<close>

text \<open>
  \<^verbatim>\<open>calculate_rsi(prices, period)\<close> of \<^verbatim>\<open>enhanced_backend.py\<close> and \<^verbatim>\<open>quick_start.py\<close>.
  \<^verbatim>\<open>prices.diff()\<close> has no value at the first index (\<open>None\<close>, pandas' NaN);
  \<^verbatim>\<open>delta.where(delta > 0, 0)\<close> keeps the positive differences and puts 0 everywhere else,
  also at the first index.
\<close>

fun diff :: "real list \<Rightarrow> real option list" where
  "diff [] = []"
| "diff (x # xs) = None # map (\<lambda>(a, b). Some (b - a)) (zip (x # xs) xs)"

definition where_pos :: "real option \<Rightarrow> real" where
  "where_pos d = (case d of Some x \<Rightarrow> if 0 < x then x else 0 | None \<Rightarrow> 0)"

definition where_neg :: "real option \<Rightarrow> real" where
  "where_neg d = (case d of Some x \<Rightarrow> if x < 0 then x else 0 | None \<Rightarrow> 0)"

text \<open>The rolling average gain and the rolling average loss (both non-negative).\<close>

definition rsi_gain :: "real list \<Rightarrow> nat \<Rightarrow> fl list" where
  "rsi_gain prices period = rolling_mean period (map where_pos (diff prices))"

definition rsi_loss :: "real list \<Rightarrow> nat \<Rightarrow> fl list" where
  "rsi_loss prices period = rolling_mean period (map (\<lambda>d. - where_neg d) (diff prices))"

definition calculate_rsi :: "real list \<Rightarrow> nat \<Rightarrow> fl list" where
  "calculate_rsi prices period =
     (let gain = rsi_gain prices period;
          loss = rsi_loss prices period;
          rs = map (\<lambda>(g, l). fl_div g l) (zip gain loss)
      in map (\<lambda>r. fl_sub (Fin 100) (fl_div (Fin 100) (fl_add (Fin 1) r))) rs)"

section \<open>Derived notions and sample inputs\<close>

text \<open>SMA(n) at the last bar: the mean of the last \<open>n\<close> closes.\<close>

definition sma :: "nat \<Rightarrow> frame \<Rightarrow> real" where
  "sma n data = sum_list (drop (length data - n) (map Close data)) / real n"

definition flat_bar :: "real \<Rightarrow> bar" where
  "flat_bar p = \<lparr>Open = p, High = p, Low = p, Close = p, Volume = 1000\<rparr>"

text \<open>Fifty bars that never move.\<close>

definition flat :: frame where
  "flat = replicate 50 (flat_bar 100)"

text \<open>
  Fifty rising bars (closes 100 to 149) with one spike of the high at bar 30, and the
  mirror image: fifty falling bars (closes 200 to 151) with one dip of the low at bar 30.
\<close>

definition ramp :: frame where
  "ramp = map (\<lambda>(h, l, c). \<lparr>Open = c, High = h, Low = l, Close = c, Volume = 1000\<rparr>)
     [(101, 99, 100), (102, 100, 101), (103, 101, 102), (104, 102, 103), (105, 103, 104),
      (106, 104, 105), (107, 105, 106), (108, 106, 107), (109, 107, 108), (110, 108, 109),
      (111, 109, 110), (112, 110, 111), (113, 111, 112), (114, 112, 113), (115, 113, 114),
      (116, 114, 115), (117, 115, 116), (118, 116, 117), (119, 117, 118), (120, 118, 119),
      (121, 119, 120), (122, 120, 121), (123, 121, 122), (124, 122, 123), (125, 123, 124),
      (126, 124, 125), (127, 125, 126), (128, 126, 127), (129, 127, 128), (130, 128, 129),
      (151, 129, 130), (132, 130, 131), (133, 131, 132), (134, 132, 133), (135, 133, 134),
      (136, 134, 135), (137, 135, 136), (138, 136, 137), (139, 137, 138), (140, 138, 139),
      (141, 139, 140), (142, 140, 141), (143, 141, 142), (144, 142, 143), (145, 143, 144),
      (146, 144, 145), (147, 145, 146), (148, 146, 147), (149, 147, 148), (150, 148, 149)]"


text \<open>
  Twenty-three bars closing at 100, with seven local highs and six local lows of different
  heights.
\<close>

definition zigzag :: frame where
  "zigzag = map (\<lambda>(h, l). \<lparr>Open = 100, High = h, Low = l, Close = 100, Volume = 1000\<rparr>)
     [(101, 99), (101, 99), (110, 99), (101, 90), (101, 99), (120, 99), (101, 80), (101, 99),
      (130, 99), (101, 70), (101, 99), (140, 99), (101, 60), (101, 99), (150, 99), (101, 50),
      (101, 99), (160, 99), (101, 95), (101, 99), (105, 99), (101, 99), (101, 99)]"

text \<open>
  The first thirteen bars of the rising series: too few for ATR(14).
\<close>

definition stub :: frame where
  "stub = take 13 ramp"


text \<open>
  The nearest candidate above a price is the smallest candidate greater than it; the nearest
  candidate below a price is the largest candidate smaller than it.
\<close>

definition nearest_above :: "real \<Rightarrow> real list \<Rightarrow> real option" where
  "nearest_above p xs =
     (let above = filter (\<lambda>r. p < r) xs in if above = [] then None else Some (Min (set above)))"

definition nearest_below :: "real \<Rightarrow> real list \<Rightarrow> real option" where
  "nearest_below p xs =
     (let below = filter (\<lambda>s. s < p) xs in if below = [] then None else Some (Max (set below)))"

section \<open>Rolling means\<close>

lemma last_rolling_mean:
  assumes "0 < w" "w \<le> length xs"
  shows "last (rolling_mean w xs) = Fin (sum_list (drop (length xs - w) xs) / real w)"
proof -
  from assms have n: "0 < length xs" by linarith
  then have "[0..<length xs] \<noteq> []" by simp
  then have "last (rolling_mean w xs) =
      (\<lambda>i. if 0 < w \<and> w \<le> Suc i then Fin (sum_list (window_at w xs i) / real w) else NaN)
        (last [0..<length xs])"
    unfolding rolling_mean_def by (rule last_map)
  moreover from n have "last [0..<length xs] = length xs - 1" by simp
  moreover from assms have "window_at w xs (length xs - 1) = drop (length xs - w) xs"
    by (simp add: window_at_def)
  ultimately show ?thesis using assms by simp
qed

lemma last_sma:
  assumes "0 < n" "n \<le> length data"
  shows "last (rolling_mean n (map Close data)) = Fin (sma n data)"
  using last_rolling_mean [of n "map Close data"] assms by (simp add: sma_def)

section \<open>Trend classifier: contract\<close>

lemma ramp_facts:
  "length ramp = 50" "Close (last ramp) = 149" "sma 20 ramp = 279 / 2" "sma 50 ramp = 249 / 2"
  by code_simp+

lemma flat_facts: "analyze_trend flat (Some 40) = (''Sideways'', 0)" "length flat = 50"
  by code_simp+

text \<open>
  C1. A series of fewer than 50 bars is classified Insufficient Data. For a series of at
  least 50 bars the two rolling means at the last bar are SMA(20) and SMA(50); the result
  is Uptrend exactly when close > SMA(20) > SMA(50), Downtrend exactly when
  close < SMA(20) < SMA(50), and Sideways otherwise. The strength of an Uptrend or a
  Downtrend is min(trend strength, 100); the strength of Sideways is
  max(25 - trend strength, 0) when the trend strength is above 25, and 25 otherwise.
\<close>

theorem analyze_trend_contract:
  "(length data < 50 \<longrightarrow> analyze_trend data adx_result = (''Insufficient Data'', 0)) \<and>
   (50 \<le> length data \<longrightarrow>
      last (rolling_mean 20 (map Close data)) = Fin (sma 20 data) \<and>
      last (rolling_mean 50 (map Close data)) = Fin (sma 50 data) \<and>
      (let c = Close (last data); s20 = sma 20 data; s50 = sma 50 data;
           ts = trend_strength adx_result; r = analyze_trend data adx_result
       in (fst r = ''Uptrend'' \<longleftrightarrow> s20 < c \<and> s50 < s20) \<and>
          (fst r = ''Downtrend'' \<longleftrightarrow> c < s20 \<and> s20 < s50) \<and>
          (fst r = ''Sideways'' \<longleftrightarrow> \<not> (s20 < c \<and> s50 < s20) \<and> \<not> (c < s20 \<and> s20 < s50)) \<and>
          (fst r = ''Uptrend'' \<or> fst r = ''Downtrend'' \<longrightarrow> snd r = min ts 100) \<and>
          (fst r = ''Sideways'' \<longrightarrow> snd r = (if 25 < ts then max (25 - ts) 0 else 25))))"
proof (intro conjI impI)
  assume "length data < 50"
  then show "analyze_trend data adx_result = (''Insufficient Data'', 0)"
    by (simp add: analyze_trend_def)
next
  assume len: "50 \<le> length data"
  then show s20: "last (rolling_mean 20 (map Close data)) = Fin (sma 20 data)"
    by (intro last_sma) simp_all
  from len show s50: "last (rolling_mean 50 (map Close data)) = Fin (sma 50 data)"
    by (intro last_sma) simp_all
  from len have nl: "\<not> length data < 50" by simp
  show "let c = Close (last data); s20 = sma 20 data; s50 = sma 50 data;
           ts = trend_strength adx_result; r = analyze_trend data adx_result
       in (fst r = ''Uptrend'' \<longleftrightarrow> s20 < c \<and> s50 < s20) \<and>
          (fst r = ''Downtrend'' \<longleftrightarrow> c < s20 \<and> s20 < s50) \<and>
          (fst r = ''Sideways'' \<longleftrightarrow> \<not> (s20 < c \<and> s50 < s20) \<and> \<not> (c < s20 \<and> s20 < s50)) \<and>
          (fst r = ''Uptrend'' \<or> fst r = ''Downtrend'' \<longrightarrow> snd r = min ts 100) \<and>
          (fst r = ''Sideways'' \<longrightarrow> snd r = (if 25 < ts then max (25 - ts) 0 else 25))"
    unfolding analyze_trend_def Let_def s20 s50 fl_gt_def
    using nl by (simp del: max_less_iff_conj min_less_iff_conj)
qed

theorem analyze_trend_contract_witness:
  "analyze_trend [] None = (''Insufficient Data'', 0) \<and>
   analyze_trend ramp (Some 30) = (''Uptrend'', 30)"
proof
  show "analyze_trend [] None = (''Insufficient Data'', 0)"
    using analyze_trend_contract [of "[]" None] by simp
  have "fst (analyze_trend ramp (Some 30)) = ''Uptrend'' \<and>
        snd (analyze_trend ramp (Some 30)) = 30"
    using analyze_trend_contract [of ramp "Some 30"]
    by (simp add: ramp_facts Let_def trend_strength_def)
  then show "analyze_trend ramp (Some 30) = (''Uptrend'', 30)"
    by (simp add: prod_eq_iff)
qed

text \<open>
  C10. A series of at least 50 bars that is classified Sideways has strength exactly 0
  when the trend strength is above 25, and exactly 25 otherwise.
\<close>

theorem sideways_strength:
  assumes "50 \<le> length data" and "analyze_trend data adx_result = (''Sideways'', s)"
  shows "(25 < trend_strength adx_result \<longrightarrow> s = 0) \<and>
         (\<not> 25 < trend_strength adx_result \<longrightarrow> s = 25)"
  using assms unfolding analyze_trend_def Let_def
  by (auto split: if_splits)

theorem sideways_strength_witness:
  "50 \<le> length flat \<and> analyze_trend flat (Some 40) = (''Sideways'', 0) \<and>
   25 < trend_strength (Some 40)"
  using sideways_strength [of flat "Some 40" 0] by (simp add: flat_facts trend_strength_def)

section \<open>Pivot detector: shape and cap\<close>

lemma strict_sort_remdups: "sorted_wrt (<) (sort (remdups (xs::real list)))"
  by (simp add: strict_sorted_iff)

lemma strict_rev_sort_remdups: "sorted_wrt (>) (rev (sort (remdups (xs::real list))))"
  by (simp add: sorted_wrt_rev strict_sorted_iff)

lemma sorted_wrt_take_drop:
  assumes "sorted_wrt P zs" "x \<in> set (take n zs)" "y \<in> set (drop n zs)"
  shows "P x y"
proof -
  from assms(1) have "sorted_wrt P (take n zs @ drop n zs)" by simp
  then show ?thesis using assms(2,3) unfolding sorted_wrt_append by blast
qed

lemma top_of_sorted:
  assumes "sorted_wrt P ys" "n \<le> length ys"
  shows "length (take n ys) = n \<and> (\<forall>c\<in>set ys - set (take n ys). \<forall>r\<in>set (take n ys). P r c)"
proof (intro conjI ballI)
  from assms(2) show "length (take n ys) = n" by simp
next
  fix c r assume c: "c \<in> set ys - set (take n ys)" and r: "r \<in> set (take n ys)"
  have "set ys = set (take n ys) \<union> set (drop n ys)"
    using set_append [of "take n ys" "drop n ys"] by simp
  with c have "c \<in> set (drop n ys)" by blast
  with assms(1) r show "P r c" by (rule sorted_wrt_take_drop)
qed

lemma zigzag_facts:
  "length zigzag = 23"
  "card (set (resistance_candidates zigzag)) = 7"
  "card (set (support_candidates zigzag)) = 6"
  by code_simp+

text \<open>
  C6. A series shorter than 20 bars gives empty support and resistance lists. For every
  series each list has at most 5 levels, all of them candidates, without duplicates,
  support strictly ascending and resistance strictly descending.
\<close>

theorem pivot_shape:
  "(length data < 20 \<longrightarrow> calculate_support_resistance data = ([], [])) \<and>
   (let (support, resistance) = calculate_support_resistance data
    in length support \<le> 5 \<and> length resistance \<le> 5 \<and>
       distinct support \<and> distinct resistance \<and>
       sorted_wrt (<) support \<and> sorted_wrt (>) resistance \<and>
       set support \<subseteq> set (support_candidates data) \<and>
       set resistance \<subseteq> set (resistance_candidates data))"
proof (intro conjI impI)
  assume "length data < 20"
  then show "calculate_support_resistance data = ([], [])"
    by (simp add: calculate_support_resistance_def)
next
  have s: "sorted_wrt (<) (take 5 (sort (remdups (support_candidates data))))"
    by (rule sorted_wrt_take) (rule strict_sort_remdups)
  have r: "sorted_wrt (>) (take 5 (rev (sort (remdups (resistance_candidates data)))))"
    by (rule sorted_wrt_take) (rule strict_rev_sort_remdups)
  have ss: "set (take 5 (sort (remdups (support_candidates data))))
      \<subseteq> set (support_candidates data)"
    using set_take_subset [of 5 "sort (remdups (support_candidates data))"] by simp
  have rs: "set (take 5 (rev (sort (remdups (resistance_candidates data)))))
      \<subseteq> set (resistance_candidates data)"
    using set_take_subset [of 5 "rev (sort (remdups (resistance_candidates data)))"] by simp
  show "let (support, resistance) = calculate_support_resistance data
    in length support \<le> 5 \<and> length resistance \<le> 5 \<and>
       distinct support \<and> distinct resistance \<and>
       sorted_wrt (<) support \<and> sorted_wrt (>) resistance \<and>
       set support \<subseteq> set (support_candidates data) \<and>
       set resistance \<subseteq> set (resistance_candidates data)"
    using s r ss rs by (simp add: calculate_support_resistance_def Let_def)
qed

theorem pivot_shape_witness:
  "length ([]::frame) < 20 \<and> calculate_support_resistance [] = ([], []) \<and>
   length (fst (calculate_support_resistance zigzag)) \<le> 5"
  using pivot_shape [of "[]"] pivot_shape [of zigzag] by (auto simp: Let_def split: prod.splits)

text \<open>
  C7, as the specification states it, fails. The zigzag series closes at 100 and has seven
  distinct resistance candidates and six distinct support candidates. The nearest
  resistance candidate above the close is 105 and the nearest support candidate below it
  is 95; the detector keeps neither of them.
\<close>

theorem pivot_relevance_counterexample:
  "length (remdups (resistance_candidates zigzag)) = 7 \<and>
   length (remdups (support_candidates zigzag)) = 6 \<and>
   Close (last zigzag) = 100 \<and>
   nearest_above 100 (resistance_candidates zigzag) = Some 105 \<and>
   nearest_below 100 (support_candidates zigzag) = Some 95 \<and>
   calculate_support_resistance zigzag = ([50, 60, 70, 80, 90], [160, 150, 140, 130, 120])"
  by code_simp

text \<open>
  C7, amended. On a series of at least 20 bars with more than 5 distinct candidates on a
  side, the detector keeps exactly 5 levels of that side: the 5 highest resistance
  candidates in descending order, the 5 lowest support candidates in ascending order.
  Every candidate that is dropped lies below every resistance level kept, respectively
  above every support level kept. The current price plays no part.
\<close>

theorem pivot_cap_extremes:
  assumes "20 \<le> length data"
  shows "(5 < card (set (resistance_candidates data)) \<longrightarrow>
           (let res = snd (calculate_support_resistance data)
            in length res = 5 \<and> sorted_wrt (>) res \<and>
               set res \<subseteq> set (resistance_candidates data) \<and>
               (\<forall>c\<in>set (resistance_candidates data) - set res. \<forall>r\<in>set res. c < r))) \<and>
         (5 < card (set (support_candidates data)) \<longrightarrow>
           (let sup = fst (calculate_support_resistance data)
            in length sup = 5 \<and> sorted_wrt (<) sup \<and>
               set sup \<subseteq> set (support_candidates data) \<and>
               (\<forall>c\<in>set (support_candidates data) - set sup. \<forall>s\<in>set sup. s < c)))"
proof (intro conjI impI)
  assume many: "5 < card (set (resistance_candidates data))"
  define ys where "ys = rev (sort (remdups (resistance_candidates data)))"
  have res: "snd (calculate_support_resistance data) = take 5 ys"
    using assms by (simp add: calculate_support_resistance_def ys_def)
  have sorted: "sorted_wrt (>) ys" unfolding ys_def by (rule strict_rev_sort_remdups)
  have set: "set ys = set (resistance_candidates data)" by (simp add: ys_def)
  have "length ys = card (set (resistance_candidates data))"
    by (simp add: ys_def length_remdups_card_conv)
  with many have len: "5 \<le> length ys" by simp
  from top_of_sorted [OF sorted len] sorted_wrt_take [OF sorted, of 5] set_take_subset [of 5 ys]
  show "let res = snd (calculate_support_resistance data)
            in length res = 5 \<and> sorted_wrt (>) res \<and>
               set res \<subseteq> set (resistance_candidates data) \<and>
               (\<forall>c\<in>set (resistance_candidates data) - set res. \<forall>r\<in>set res. c < r)"
    unfolding Let_def res set by blast
next
  assume many: "5 < card (set (support_candidates data))"
  define ys where "ys = sort (remdups (support_candidates data))"
  have sup: "fst (calculate_support_resistance data) = take 5 ys"
    using assms by (simp add: calculate_support_resistance_def ys_def)
  have sorted: "sorted_wrt (<) ys" unfolding ys_def by (rule strict_sort_remdups)
  have set: "set ys = set (support_candidates data)" by (simp add: ys_def)
  have "length ys = card (set (support_candidates data))"
    by (simp add: ys_def length_remdups_card_conv)
  with many have len: "5 \<le> length ys" by simp
  from top_of_sorted [OF sorted len] sorted_wrt_take [OF sorted, of 5] set_take_subset [of 5 ys]
  show "let sup = fst (calculate_support_resistance data)
            in length sup = 5 \<and> sorted_wrt (<) sup \<and>
               set sup \<subseteq> set (support_candidates data) \<and>
               (\<forall>c\<in>set (support_candidates data) - set sup. \<forall>s\<in>set sup. s < c)"
    unfolding Let_def sup set by blast
qed

theorem pivot_cap_extremes_witness:
  "20 \<le> length zigzag \<and> 5 < card (set (resistance_candidates zigzag)) \<and>
   5 < card (set (support_candidates zigzag)) \<and>
   length (snd (calculate_support_resistance zigzag)) = 5 \<and>
   length (fst (calculate_support_resistance zigzag)) = 5"
  using pivot_cap_extremes [of zigzag] by (simp add: zigzag_facts Let_def)

section \<open>RSI: range and boundary\<close>

lemma rolling_mean_nth:
  "i < length xs \<Longrightarrow> rolling_mean w xs ! i =
     (if 0 < w \<and> w \<le> Suc i then Fin (sum_list (window_at w xs i) / real w) else NaN)"
  by (simp add: rolling_mean_def)

lemma length_rolling_mean: "length (rolling_mean w xs) = length xs"
  by (simp add: rolling_mean_def)

lemma length_diff: "length (diff xs) = length xs"
  by (cases xs) simp_all

lemma window_nonneg:
  assumes "\<forall>x\<in>set xs. 0 \<le> x"
  shows "0 \<le> sum_list (window_at w xs i)"
proof (rule sum_list_nonneg)
  fix x assume "x \<in> set (window_at w xs i)"
  then have "x \<in> set xs"
    unfolding window_at_def by (meson in_set_dropD in_set_takeD)
  with assms show "0 \<le> x" by blast
qed

lemma where_pos_nonneg: "0 \<le> where_pos d"
  by (simp add: where_pos_def split: option.splits)

lemma where_neg_nonpos: "where_neg d \<le> 0"
  by (simp add: where_neg_def split: option.splits)

lemma rsi_gain_nth:
  assumes "0 < period" "period \<le> Suc i" "i < length prices"
  shows "\<exists>g. rsi_gain prices period ! i = Fin g \<and> 0 \<le> g"
proof -
  have "0 \<le> sum_list (window_at period (map where_pos (diff prices)) i)"
    by (rule window_nonneg) (simp add: where_pos_nonneg)
  then show ?thesis
    using assms by (simp add: rsi_gain_def rolling_mean_nth length_diff)
qed

lemma rsi_loss_nth:
  assumes "0 < period" "period \<le> Suc i" "i < length prices"
  shows "\<exists>l. rsi_loss prices period ! i = Fin l \<and> 0 \<le> l"
proof -
  have "0 \<le> sum_list (window_at period (map (\<lambda>d. - where_neg d) (diff prices)) i)"
    by (rule window_nonneg) (simp add: where_neg_nonpos)
  then show ?thesis
    using assms by (simp add: rsi_loss_def rolling_mean_nth length_diff)
qed

lemma calculate_rsi_nth:
  assumes "i < length prices"
  shows "calculate_rsi prices period ! i =
     fl_sub (Fin 100) (fl_div (Fin 100)
       (fl_add (Fin 1) (fl_div (rsi_gain prices period ! i) (rsi_loss prices period ! i))))"
  using assms
  by (simp add: calculate_rsi_def Let_def rsi_gain_def rsi_loss_def length_rolling_mean length_diff)

lemma rsi_value:
  assumes "0 \<le> g" "0 \<le> l" "g \<noteq> 0 \<or> l \<noteq> 0"
  shows "\<exists>r. fl_sub (Fin 100) (fl_div (Fin 100) (fl_add (Fin 1) (fl_div (Fin g) (Fin l)))) = Fin r \<and>
           0 \<le> r \<and> r \<le> 100 \<and> (r = 100 \<longleftrightarrow> l = 0 \<and> 0 < g)"
proof (cases "l = 0")
  case True
  with assms have "0 < g" by simp
  with True show ?thesis by (simp add: fl_sub_def)
next
  case False
  with assms have l: "0 < l" by simp
  define q where "q = 1 + g / l"
  from assms(1) l have q: "1 \<le> q" by (simp add: q_def)
  then have pos: "0 < 100 / q" and le: "100 / q \<le> 100"
    by (simp_all add: divide_le_eq)
  have "fl_sub (Fin 100) (fl_div (Fin 100) (fl_add (Fin 1) (fl_div (Fin g) (Fin l)))) =
        Fin (100 - 100 / q)"
    using False q by (simp add: fl_sub_def q_def)
  with pos le False show ?thesis by simp
qed

text \<open>
  C3. For a period of at least 1, a series of at least period + 1 prices and every index
  from period - 1 on, the rolling average gain \<open>g\<close> and the rolling average loss \<open>l\<close> are
  finite and non-negative. When they are not both zero the RSI at that index is a finite
  number in [0, 100], and it is 100 exactly when \<open>l = 0\<close> and \<open>g > 0\<close> (the division by
  the zero loss gives +infinity, and 100 / (1 + infinity) is 0).
\<close>

theorem rsi_range:
  assumes "0 < period" and "period + 1 \<le> length prices"
    and "period \<le> Suc i" and "i < length prices"
  shows "\<exists>g l. rsi_gain prices period ! i = Fin g \<and> rsi_loss prices period ! i = Fin l \<and>
           0 \<le> g \<and> 0 \<le> l \<and>
           (g \<noteq> 0 \<or> l \<noteq> 0 \<longrightarrow>
              (\<exists>r. calculate_rsi prices period ! i = Fin r \<and> 0 \<le> r \<and> r \<le> 100 \<and>
                   (r = 100 \<longleftrightarrow> l = 0 \<and> 0 < g)))"
proof -
  from rsi_gain_nth [OF assms(1,3,4)] obtain g
    where g: "rsi_gain prices period ! i = Fin g" "0 \<le> g" by blast
  from rsi_loss_nth [OF assms(1,3,4)] obtain l
    where l: "rsi_loss prices period ! i = Fin l" "0 \<le> l" by blast
  have "g \<noteq> 0 \<or> l \<noteq> 0 \<longrightarrow>
              (\<exists>r. calculate_rsi prices period ! i = Fin r \<and> 0 \<le> r \<and> r \<le> 100 \<and>
                   (r = 100 \<longleftrightarrow> l = 0 \<and> 0 < g))"
    using rsi_value [OF g(2) l(2)] by (simp add: calculate_rsi_nth [OF assms(4)] g(1) l(1))
  with g l show ?thesis by blast
qed

lemma rsi_facts:
  "rsi_gain [1, 2, 3, 4, 3, 5] 3 ! 5 = Fin 1"
  "rsi_loss [1, 2, 3, 4, 3, 5] 3 ! 5 = Fin (1 / 3)"
  "calculate_rsi [1, 2, 3, 4, 3, 5] 3 ! 5 = Fin 75"
  "rsi_gain [1, 2, 3, 4, 3, 5] 3 ! 3 = Fin 1"
  "rsi_loss [1, 2, 3, 4, 3, 5] 3 ! 3 = Fin 0"
  "calculate_rsi [1, 2, 3, 4, 3, 5] 3 ! 3 = Fin 100"
  by code_simp+

theorem rsi_range_witness:
  "(0::nat) < 3 \<and> 3 + 1 \<le> length [1, 2, 3, 4, 3, 5 :: real] \<and>
   rsi_gain [1, 2, 3, 4, 3, 5] 3 ! 5 = Fin 1 \<and> rsi_loss [1, 2, 3, 4, 3, 5] 3 ! 5 = Fin (1 / 3) \<and>
   calculate_rsi [1, 2, 3, 4, 3, 5] 3 ! 5 = Fin 75 \<and>
   rsi_gain [1, 2, 3, 4, 3, 5] 3 ! 3 = Fin 1 \<and> rsi_loss [1, 2, 3, 4, 3, 5] 3 ! 3 = Fin 0 \<and>
   calculate_rsi [1, 2, 3, 4, 3, 5] 3 ! 3 = Fin 100"
  using rsi_range [of 3 "[1, 2, 3, 4, 3, 5]" 5] rsi_range [of 3 "[1, 2, 3, 4, 3, 5]" 3]
  by (simp add: rsi_facts)

section \<open>Float64 rounding: exponent, monotonicity\<close>

lemma lg_up_bounds: "1 \<le> x \<Longrightarrow> 2 ^ lg_up x \<le> x \<and> x < 2 ^ Suc (lg_up x)"
proof (induction x rule: lg_up.induct)
  case (1 x)
  show ?case
  proof (cases "x < 2")
    case True
    with 1(2) show ?thesis by (simp add: lg_up.simps [of x])
  next
    case False
    then have "1 \<le> x / 2" by simp
    with 1(1) False have "2 ^ lg_up (x / 2) \<le> x / 2 \<and> x / 2 < 2 ^ Suc (lg_up (x / 2))"
      by blast
    with False show ?thesis by (simp add: lg_up.simps [of x])
  qed
qed

lemma lg_down_bounds:
  "0 < x \<Longrightarrow> x < 1 \<Longrightarrow> 1 \<le> x * 2 ^ lg_down x \<and> x * 2 ^ lg_down x < 2"
proof (induction x rule: lg_down.induct)
  case (1 x)
  from 1(2,3) have step: "lg_down x = Suc (lg_down (2 * x))"
    by (simp add: lg_down.simps [of x])
  show ?case
  proof (cases "2 * x < 1")
    case True
    with 1 have "1 \<le> 2 * x * 2 ^ lg_down (2 * x) \<and> 2 * x * 2 ^ lg_down (2 * x) < 2"
      by simp
    then show ?thesis by (simp add: step mult.assoc mult.left_commute)
  next
    case False
    then have "lg_down (2 * x) = 0" by (simp add: lg_down.simps [of "2 * x"])
    with False 1(3) show ?thesis by (simp add: step mult.commute)
  qed
qed

lemma binary_exponent_bounds:
  assumes "0 < x"
  shows "2 powi binary_exponent x \<le> x" and "x < 2 powi (binary_exponent x + 1)"
proof -
  have "2 powi binary_exponent x \<le> x \<and> x < 2 powi (binary_exponent x + 1)"
  proof (cases "1 \<le> x")
    case True
    then have e: "binary_exponent x = int (lg_up x)" by (simp add: binary_exponent_def)
    have "int (lg_up x) + 1 = int (Suc (lg_up x))" by simp
    with lg_up_bounds [OF True] show ?thesis
      unfolding e by (simp only: power_int_of_nat)
  next
    case False
    then have e: "binary_exponent x = - int (lg_down x)" by (simp add: binary_exponent_def)
    from False assms have b: "1 \<le> x * 2 ^ lg_down x" "x * 2 ^ lg_down x < 2"
      using lg_down_bounds [of x] by simp_all
    have p: "(2::real) powi (- int (lg_down x)) = 1 / 2 ^ lg_down x"
      by (simp add: power_int_minus_divide)
    have q: "(2::real) powi (- int (lg_down x) + 1) = 2 / 2 ^ lg_down x"
      using power_int_add [of "2::real" "- int (lg_down x)" 1] p by simp
    from b show ?thesis unfolding e p q by (simp add: field_simps)
  qed
  then show "2 powi binary_exponent x \<le> x" and "x < 2 powi (binary_exponent x + 1)"
    by simp_all
qed

lemma binary_exponent_unique:
  assumes "0 < x" "2 powi k \<le> x" "x < 2 powi (k + 1)"
  shows "binary_exponent x = k"
proof -
  let ?e = "binary_exponent x"
  have "\<not> k + 1 \<le> ?e"
  proof
    assume "k + 1 \<le> ?e"
    then have "(2::real) powi (k + 1) \<le> 2 powi ?e" by (intro power_int_increasing) simp_all
    with binary_exponent_bounds(1) [OF assms(1)] assms(3) show False by simp
  qed
  moreover have "\<not> ?e + 1 \<le> k"
  proof
    assume "?e + 1 \<le> k"
    then have "(2::real) powi (?e + 1) \<le> 2 powi k" by (intro power_int_increasing) simp_all
    with binary_exponent_bounds(2) [OF assms(1)] assms(2) show False by simp
  qed
  ultimately show ?thesis by simp
qed

lemma binary_exponent_mono:
  assumes "0 < x" "x \<le> y"
  shows "binary_exponent x \<le> binary_exponent y"
proof (rule ccontr)
  assume "\<not> ?thesis"
  then have "binary_exponent y + 1 \<le> binary_exponent x" by simp
  then have "(2::real) powi (binary_exponent y + 1) \<le> 2 powi binary_exponent x"
    by (intro power_int_increasing) simp_all
  moreover from assms have "0 < y" by simp
  ultimately show False
    using binary_exponent_bounds(1) [OF assms(1)] binary_exponent_bounds(2) [of y] assms(2)
    by simp
qed

lemma rte_of_int: "rte (of_int n) = n"
  by (simp add: rte_def)

lemma rte_mono:
  assumes "x \<le> y"
  shows "rte x \<le> rte y"
proof -
  have fx: "\<lfloor>x\<rfloor> \<le> rte x" "rte x \<le> \<lfloor>x\<rfloor> + 1" for x :: real
    by (simp_all add: rte_def Let_def)
  from assms have "\<lfloor>x\<rfloor> \<le> \<lfloor>y\<rfloor>" by (rule floor_mono)
  then consider "\<lfloor>x\<rfloor> < \<lfloor>y\<rfloor>" | "\<lfloor>x\<rfloor> = \<lfloor>y\<rfloor>" by linarith
  then show ?thesis
  proof cases
    case 1
    with fx(2) [of x] fx(1) [of y] show ?thesis by linarith
  next
    case 2
    with assms show ?thesis by (auto simp: rte_def Let_def)
  qed
qed

lemma powi_split: "(2::real) powi k = 2 ^ n * 2 powi (k - int n)"
  using power_int_add [of "2::real" "k - int n" "int n"] by (simp add: mult.commute)

lemma round64_pos:
  assumes "0 < x"
  shows "round64 x = of_int (rte (x / 2 powi (binary_exponent x - 52))) * 2 powi (binary_exponent x - 52)"
  using assms by (simp add: round64_def Let_def)

lemma mantissa_bounds:
  assumes "0 < x"
  defines "u \<equiv> 2 powi (binary_exponent x - 52)"
  shows "2 ^ 52 \<le> x / u" and "x / u < 2 ^ 53"
proof -
  have u: "0 < u" by (simp add: u_def)
  have a: "(2::real) powi binary_exponent x = 2 ^ 52 * u"
    using powi_split [of "binary_exponent x" 52] by (simp add: u_def)
  have b: "(2::real) powi (binary_exponent x + 1) = 2 ^ 53 * u"
    using powi_split [of "binary_exponent x + 1" 53] by (simp add: u_def)
  from binary_exponent_bounds(1) [OF assms(1)] u show "2 ^ 52 \<le> x / u"
    unfolding a by (simp add: pos_le_divide_eq)
  from binary_exponent_bounds(2) [OF assms(1)] u show "x / u < 2 ^ 53"
    unfolding b by (simp add: pos_divide_less_eq)
qed

lemma round64_bounds:
  assumes "0 < x"
  shows "2 powi binary_exponent x \<le> round64 x" and "round64 x \<le> 2 powi (binary_exponent x + 1)"
proof -
  define u :: real where "u = 2 powi (binary_exponent x - 52)"
  have u: "0 < u" by (simp add: u_def)
  have a: "(2::real) powi binary_exponent x = 2 ^ 52 * u"
    using powi_split [of "binary_exponent x" 52] by (simp add: u_def)
  have b: "(2::real) powi (binary_exponent x + 1) = 2 ^ 53 * u"
    using powi_split [of "binary_exponent x + 1" 53] by (simp add: u_def)
  have r: "round64 x = of_int (rte (x / u)) * u"
    using round64_pos [OF assms] by (simp add: u_def)
  from mantissa_bounds [OF assms] have m: "2 ^ 52 \<le> x / u" "x / u < 2 ^ 53"
    by (simp_all add: u_def)
  have "rte (of_int (2 ^ 52)) \<le> rte (x / u)" using m(1) by (intro rte_mono) simp
  then have lo: "(2 ^ 52 :: int) \<le> rte (x / u)" by (simp only: rte_of_int)
  have "rte (x / u) \<le> rte (of_int (2 ^ 53))" using m(2) by (intro rte_mono) simp
  then have hi: "rte (x / u) \<le> (2 ^ 53 :: int)" by (simp only: rte_of_int)
  from lo have "(2 ^ 52 :: real) \<le> of_int (rte (x / u))" by simp
  with u show "2 powi binary_exponent x \<le> round64 x" unfolding a r by simp
  from hi have "of_int (rte (x / u)) \<le> (2 ^ 53 :: real)" by simp
  with u show "round64 x \<le> 2 powi (binary_exponent x + 1)" unfolding b r by simp
qed

lemma round64_pos_mono:
  assumes "0 < x" "x \<le> y"
  shows "round64 x \<le> round64 y"
proof -
  from assms have y: "0 < y" by simp
  from binary_exponent_mono [OF assms]
  consider "binary_exponent x = binary_exponent y" | "binary_exponent x + 1 \<le> binary_exponent y"
    by linarith
  then show ?thesis
  proof cases
    case 1
    define u :: real where "u = 2 powi (binary_exponent y - 52)"
    have u: "0 < u" by (simp add: u_def)
    from assms(2) u have "x / u \<le> y / u" by (simp add: divide_right_mono)
    then have "rte (x / u) \<le> rte (y / u)" by (rule rte_mono)
    then have "(of_int (rte (x / u)) :: real) \<le> of_int (rte (y / u))" by simp
    with u have "of_int (rte (x / u)) * u \<le> of_int (rte (y / u)) * u" by simp
    then show ?thesis
      using round64_pos [OF assms(1)] round64_pos [OF y] by (simp add: 1 u_def)
  next
    case 2
    then have "(2::real) powi (binary_exponent x + 1) \<le> 2 powi binary_exponent y"
      by (intro power_int_increasing) simp_all
    with round64_bounds(2) [OF assms(1)] round64_bounds(1) [OF y] show ?thesis by linarith
  qed
qed

lemma round64_pos_pos:
  assumes "0 < x"
  shows "0 < round64 x"
proof -
  have "(0::real) < 2 powi binary_exponent x" by simp
  also have "\<dots> \<le> round64 x" using assms by (rule round64_bounds(1))
  finally show ?thesis .
qed

lemma round64_minus: "round64 (- x) = - round64 x"
  by (simp add: round64_def Let_def)

lemma round64_zero: "round64 0 = 0"
  by (simp add: round64_def)

lemma round64_mono:
  assumes "x \<le> y"
  shows "round64 x \<le> round64 y"
proof -
  consider "0 < x" | "x \<le> 0" "0 \<le> y" | "y < 0" by linarith
  then show ?thesis
  proof cases
    case 1
    then show ?thesis using assms by (rule round64_pos_mono)
  next
    case 2
    have "round64 x \<le> 0"
    proof (cases "x = 0")
      case True then show ?thesis by (simp add: round64_zero)
    next
      case False
      with 2 have "0 < - x" by simp
      then have "0 < round64 (- x)" by (rule round64_pos_pos)
      then show ?thesis by (simp add: round64_minus)
    qed
    moreover have "0 \<le> round64 y"
    proof (cases "y = 0")
      case True then show ?thesis by (simp add: round64_zero)
    next
      case False
      with 2 have "0 < y" by simp
      then have "0 < round64 y" by (rule round64_pos_pos)
      then show ?thesis by simp
    qed
    ultimately show ?thesis by simp
  next
    case 3
    with assms have "0 < - y" "- y \<le> - x" by simp_all
    then have "round64 (- y) \<le> round64 (- x)" by (rule round64_pos_mono)
    then show ?thesis by (simp add: round64_minus)
  qed
qed


section \<open>Level generator: the plans\<close>

lemma round_ops [simp]:
  "radd rnd (Fin x) (Fin y) = Fin (rnd (x + y))"
  "rsub rnd (Fin x) (Fin y) = Fin (rnd (x - y))"
  "rmul rnd (Fin x) (Fin y) = Fin (rnd (x * y))"
  by (simp_all add: radd_def rsub_def rmul_def fl_rnd_def fl_sub_def)


lemma clamp_down:
  fixes c tp0 :: real and res :: "real list"
  defines "t \<equiv> (case nearest_above c res of None \<Rightarrow> tp0 | Some r \<Rightarrow> min tp0 r)"
  shows "(if res \<noteq> []
          then py_min (Fin tp0) (min_default (filter (\<lambda>r. c < r) res) (Fin tp0))
          else Fin tp0) = Fin t"
    and "t \<le> tp0" and "c < tp0 \<Longrightarrow> c < t"
proof -
  let ?above = "filter (\<lambda>r. c < r) res"
  show "(if res \<noteq> []
          then py_min (Fin tp0) (min_default (filter (\<lambda>r. c < r) res) (Fin tp0))
          else Fin tp0) = Fin t"
    by (cases "?above = []")
      (auto simp: t_def nearest_above_def min_default_def py_min_def Let_def min_def)
  show "t \<le> tp0"
    by (simp add: t_def split: option.splits)
  show "c < t" if "c < tp0"
  proof (cases "?above = []")
    case True
    with that show ?thesis by (simp add: t_def nearest_above_def)
  next
    case False
    then have "set ?above \<noteq> {}" by (simp only: set_empty not_False_eq_True)
    then have "Min (set ?above) \<in> set ?above" by (intro Min_in) simp_all
    then have "c < Min (set ?above)" by simp
    with that False show ?thesis by (simp add: t_def nearest_above_def)
  qed
qed

lemma clamp_up:
  fixes c tp0 :: real and sup :: "real list"
  defines "t \<equiv> (case nearest_below c sup of None \<Rightarrow> tp0 | Some r \<Rightarrow> max tp0 r)"
  shows "(if sup \<noteq> []
          then py_max (Fin tp0) (max_default (filter (\<lambda>s. s < c) sup) (Fin tp0))
          else Fin tp0) = Fin t"
    and "tp0 \<le> t" and "tp0 < c \<Longrightarrow> t < c"
proof -
  let ?below = "filter (\<lambda>s. s < c) sup"
  show "(if sup \<noteq> []
          then py_max (Fin tp0) (max_default (filter (\<lambda>s. s < c) sup) (Fin tp0))
          else Fin tp0) = Fin t"
    by (cases "?below = []")
      (auto simp: t_def nearest_below_def max_default_def py_max_def fl_gt_def Let_def max_def)
  show "tp0 \<le> t"
    by (simp add: t_def split: option.splits)
  show "t < c" if "tp0 < c"
  proof (cases "?below = []")
    case True
    with that show ?thesis by (simp add: t_def nearest_below_def)
  next
    case False
    then have "set ?below \<noteq> {}" by (simp only: set_empty not_False_eq_True)
    then have "Max (set ?below) \<in> set ?below" by (intro Max_in) simp_all
    then have "Max (set ?below) < c" by simp
    with that False show ?thesis by (simp add: t_def nearest_below_def)
  qed
qed








subsection \<open>Ordering in float64\<close>

lemma nearest_above_gt: "nearest_above c res = Some r \<Longrightarrow> c < r"
proof -
  assume a: "nearest_above c res = Some r"
  let ?above = "filter (\<lambda>r. c < r) res"
  from a have ne: "?above \<noteq> []" and r: "r = Min (set ?above)"
    by (auto simp: nearest_above_def Let_def split: if_splits)
  from ne have "set ?above \<noteq> {}" by (simp only: set_empty not_False_eq_True)
  then have "Min (set ?above) \<in> set ?above" by (intro Min_in) simp_all
  with r show "c < r" by simp
qed

lemma nearest_below_lt: "nearest_below c sups = Some r \<Longrightarrow> r < c"
proof -
  assume a: "nearest_below c sups = Some r"
  let ?below = "filter (\<lambda>s. s < c) sups"
  from a have ne: "?below \<noteq> []" and r: "r = Max (set ?below)"
    by (auto simp: nearest_below_def Let_def split: if_splits)
  from ne have "set ?below \<noteq> {}" by (simp only: set_empty not_False_eq_True)
  then have "Max (set ?below) \<in> set ?below" by (intro Max_in) simp_all
  with r show "r < c" by simp
qed

text \<open>
  The same fields in float64 (\<open>long_plan\<close> and \<open>short_plan\<close> with \<open>round64\<close>), for a close
  that is a float64 number and an ATR \<open>a > 0\<close>: rounding is monotone, so the LONG plan has
  stop_loss \<le> entry \<le> take_profit_1 \<le> take_profit_2 and the SHORT plan the mirror
  image. The inequality between stop and entry is strict unless 2a is absorbed in the
  rounding of close - 2a or close + 2a.
\<close>

lemma float64_ordering:
  fixes a c :: real and res sups :: "real list"
  assumes "0 < a" and "round64 c = c"
  defines "up \<equiv> (case nearest_above c res of
                    None \<Rightarrow> round64 (c + round64 (2 * a))
                  | Some r \<Rightarrow> min (round64 (c + round64 (2 * a))) r)"
  defines "dn \<equiv> (case nearest_below c sups of
                    None \<Rightarrow> round64 (c - round64 (2 * a))
                  | Some r \<Rightarrow> max (round64 (c - round64 (2 * a))) r)"
  shows "round64 (c - round64 (2 * a)) \<le> c" and "c \<le> up"
    and "up \<le> round64 (c + round64 (4 * a))"
    and "round64 (c - round64 (4 * a)) \<le> dn" and "dn \<le> c"
    and "c \<le> round64 (c + round64 (2 * a))"
proof -
  from assms(1) have t: "0 < round64 (2 * a)" by (intro round64_pos_pos) simp
  from assms(1) have t24: "round64 (2 * a) \<le> round64 (4 * a)" by (intro round64_mono) simp
  have "round64 (c - round64 (2 * a)) \<le> round64 c" using t by (intro round64_mono) simp
  then show lo: "round64 (c - round64 (2 * a)) \<le> c" by (simp add: assms(2))
  have "round64 c \<le> round64 (c + round64 (2 * a))" using t by (intro round64_mono) simp
  then show hi: "c \<le> round64 (c + round64 (2 * a))" by (simp add: assms(2))
  show "c \<le> up"
    using hi nearest_above_gt [of c res] by (auto simp: up_def split: option.splits)
  have "up \<le> round64 (c + round64 (2 * a))" unfolding up_def by (rule clamp_down(2))
  also have "\<dots> \<le> round64 (c + round64 (4 * a))" using t24 by (intro round64_mono) simp
  finally show "up \<le> round64 (c + round64 (4 * a))" .
  show "dn \<le> c"
    using lo nearest_below_lt [of c sups] by (auto simp: dn_def split: option.splits)
  have "round64 (c - round64 (4 * a)) \<le> round64 (c - round64 (2 * a))"
    using t24 by (intro round64_mono) simp
  also have "\<dots> \<le> dn" unfolding dn_def by (rule clamp_up(2))
  finally show "round64 (c - round64 (4 * a)) \<le> dn" .
qed

section \<open>Level generator: risk/reward ratio\<close>







section \<open>Level generator: degenerate ratio\<close>

text \<open>
  C4. With an ATR of 0 the generator still performs the division: entry, stop and both
  targets coincide and the ratio is 0/0, which float64 evaluates to NaN. The plan carries
  that NaN in \<open>risk_reward\<close>; nothing marks the ratio as unavailable. This is so in float64
  and in exact arithmetic alike.
\<close>

theorem degenerate_risk_reward_nan:
  "generate_entry_exit_levels round64 flat (Some (Fin 0)) ''Uptrend'' =
     Inr \<lparr>direction = Some ''LONG'', message = None, entry = Some (Fin 100),
          stop_loss = Some (Fin 100), take_profit_1 = Some (Fin 100),
          take_profit_2 = Some (Fin 100), risk_reward = Some NaN\<rparr> \<and>
   generate_entry_exit_levels round64 flat (Some (Fin 0)) ''Downtrend'' =
     Inr \<lparr>direction = Some ''SHORT'', message = None, entry = Some (Fin 100),
          stop_loss = Some (Fin 100), take_profit_1 = Some (Fin 100),
          take_profit_2 = Some (Fin 100), risk_reward = Some NaN\<rparr> \<and>
   generate_entry_exit_levels exact flat (Some (Fin 0)) ''Uptrend'' =
     Inr \<lparr>direction = Some ''LONG'', message = None, entry = Some (Fin 100),
          stop_loss = Some (Fin 100), take_profit_1 = Some (Fin 100),
          take_profit_2 = Some (Fin 100), risk_reward = Some NaN\<rparr> \<and>
   generate_entry_exit_levels exact flat (Some (Fin 0)) ''Downtrend'' =
     Inr \<lparr>direction = Some ''SHORT'', message = None, entry = Some (Fin 100),
          stop_loss = Some (Fin 100), take_profit_1 = Some (Fin 100),
          take_profit_2 = Some (Fin 100), risk_reward = Some NaN\<rparr>"
  by code_simp

section \<open>Risk sizer: zero risk per share\<close>

lemma wait_gives_no_position:
  "direction lv = Some ''WAIT'' \<Longrightarrow>
     calculate_risk_management p lv = Inr (RiskMessage ''No position recommended'')"
  by (simp add: calculate_risk_management_def)

lemma missing_stop_unavailable:
  "direction lv \<noteq> Some ''WAIT'' \<Longrightarrow> stop_loss lv = None \<Longrightarrow>
     calculate_risk_management p lv = Inr (RiskMessage ''Risk calculation unavailable'')"
  by (simp add: calculate_risk_management_def)

text \<open>
  C5. A WAIT plan gets the message \<^verbatim>\<open>No position recommended\<close>
  (\<open>wait_gives_no_position\<close>). A directional plan whose stop equals the current price does
  not get a message: 200 / 0 is +infinity in float64 and \<^verbatim>\<open>int\<close> of it raises
  OverflowError. The plan below is the one the generator returns for the flat series with
  an ATR of 0.
\<close>

theorem zero_risk_raises:
  "Close (last flat) = 100 \<and>
   generate_entry_exit_levels round64 flat (Some (Fin 0)) ''Uptrend'' =
     Inr \<lparr>direction = Some ''LONG'', message = None, entry = Some (Fin 100),
          stop_loss = Some (Fin 100), take_profit_1 = Some (Fin 100),
          take_profit_2 = Some (Fin 100), risk_reward = Some NaN\<rparr> \<and>
   calculate_risk_management 100
     \<lparr>direction = Some ''LONG'', message = None, entry = Some (Fin 100),
      stop_loss = Some (Fin 100), take_profit_1 = Some (Fin 100),
      take_profit_2 = Some (Fin 100), risk_reward = Some NaN\<rparr> =
     Inl OverflowError"
  by code_simp

section \<open>Level generator: ATR on a short series\<close>

lemma nan_absorbs [simp]:
  "fl_lt x NaN = False" "fl_add x NaN = NaN" "fl_mul x NaN = NaN" "fl_div x NaN = NaN"
  by (cases x; simp)+

lemma nan_rounded [simp]:
  "fl_rnd rnd NaN = NaN" "radd rnd x NaN = NaN" "rsub rnd x NaN = NaN" "rsub rnd NaN x = NaN"
  "rmul rnd x NaN = NaN" "rdiv rnd x NaN = NaN" "rdiv rnd NaN x = NaN"
  "py_min NaN x = NaN" "py_max NaN x = NaN"
  by (simp_all add: fl_rnd_def radd_def rsub_def rmul_def rdiv_def fl_sub_def py_min_def
      py_max_def fl_gt_def)

lemma nan_atr_propagates:
  assumes "data \<noteq> []" and "trend = ''Uptrend'' \<or> trend = ''Downtrend''"
  shows "\<exists>lv. generate_entry_exit_levels rnd data (Some NaN) trend = Inr lv \<and>
           entry lv = Some (Fin (Close (last data))) \<and> stop_loss lv = Some NaN \<and>
           take_profit_1 lv = Some NaN \<and> take_profit_2 lv = Some NaN \<and>
           risk_reward lv = Some NaN"
proof -
  obtain sup res where sr: "calculate_support_resistance data = (sup, res)"
    by (cases "calculate_support_resistance data")
  from assms show ?thesis
    by (auto simp: generate_entry_exit_levels_def Let_def sr)
qed

text \<open>
  C8. The 2% fallback is in the \<^verbatim>\<open>except\<close> branch only. On a series of fewer than 14
  bars TA-Lib does not raise, it returns NaN, and the NaN goes through the arithmetic:
  for the thirteen-bar series and either direction the plan has the entry 112 and NaN for
  the stop, both targets and the ratio (\<open>nan_atr_propagates\<close> shows it for every non-empty
  series).
\<close>

theorem short_series_no_fallback:
  "length stub = 13 \<and>
   generate_entry_exit_levels round64 stub (Some NaN) ''Uptrend'' =
     Inr \<lparr>direction = Some ''LONG'', message = None, entry = Some (Fin 112),
          stop_loss = Some NaN, take_profit_1 = Some NaN, take_profit_2 = Some NaN,
          risk_reward = Some NaN\<rparr> \<and>
   generate_entry_exit_levels round64 stub (Some NaN) ''Downtrend'' =
     Inr \<lparr>direction = Some ''SHORT'', message = None, entry = Some (Fin 112),
          stop_loss = Some NaN, take_profit_1 = Some NaN, take_profit_2 = Some NaN,
          risk_reward = Some NaN\<rparr>"
  by code_simp

end
